theory Spec2Isabelle
  imports Main "HOL-Library.Sublist"
begin

section \<open>Strings of the platform\<close>

text \<open>
  A JavaScript string is modelled as a \<^typ>\<open>string\<close> whose characters are the code units
  \<open>0..255\<close>. Header values reach the middleware as byte strings, so this covers every
  host header; for the other functions it is the Latin-1 part of their input type.
\<close>

text \<open>
  \<^verbatim>\<open>String.prototype.toLowerCase\<close> on the code units \<open>0..255\<close>: \<open>A..Z\<close> and the
  upper-case letters of Latin-1 (\<open>0xC0..0xDE\<close> without the multiplication sign \<open>0xD7\<close>)
  move up by \<open>0x20\<close>; every other code unit is kept.
\<close>

definition upper_case_units :: string where
  "upper_case_units = ''ABCDEFGHIJKLMNOPQRSTUVWXYZ'' @
     [CHR 0xC0, CHR 0xC1, CHR 0xC2, CHR 0xC3, CHR 0xC4, CHR 0xC5, CHR 0xC6, CHR 0xC7,
      CHR 0xC8, CHR 0xC9, CHR 0xCA, CHR 0xCB, CHR 0xCC, CHR 0xCD, CHR 0xCE, CHR 0xCF,
      CHR 0xD0, CHR 0xD1, CHR 0xD2, CHR 0xD3, CHR 0xD4, CHR 0xD5, CHR 0xD6,
      CHR 0xD8, CHR 0xD9, CHR 0xDA, CHR 0xDB, CHR 0xDC, CHR 0xDD, CHR 0xDE]"

definition lower_case_units :: string where
  "lower_case_units = ''abcdefghijklmnopqrstuvwxyz'' @
     [CHR 0xE0, CHR 0xE1, CHR 0xE2, CHR 0xE3, CHR 0xE4, CHR 0xE5, CHR 0xE6, CHR 0xE7,
      CHR 0xE8, CHR 0xE9, CHR 0xEA, CHR 0xEB, CHR 0xEC, CHR 0xED, CHR 0xEE, CHR 0xEF,
      CHR 0xF0, CHR 0xF1, CHR 0xF2, CHR 0xF3, CHR 0xF4, CHR 0xF5, CHR 0xF6,
      CHR 0xF8, CHR 0xF9, CHR 0xFA, CHR 0xFB, CHR 0xFC, CHR 0xFD, CHR 0xFE]"

definition toLowerCase_char :: "char \<Rightarrow> char" where
  "toLowerCase_char c =
     (case map_of (zip upper_case_units lower_case_units) c of
        Some l \<Rightarrow> l
      | None \<Rightarrow> c)"

definition toLowerCase :: "string \<Rightarrow> string" where
  "toLowerCase s = map toLowerCase_char s"

text \<open>\<^verbatim>\<open>s.split(":")[0]\<close>: the part of \<open>s\<close> before its first colon, all of \<open>s\<close>
  when it has none (\<open>split\<close> never returns an empty array, so index \<open>0\<close> is defined).\<close>

definition split_colon_0 :: "string \<Rightarrow> string" where
  "split_colon_0 s = takeWhile (\<lambda>c. c \<noteq> CHR '':'') s"

text \<open>\<^verbatim>\<open>s.endsWith(suf)\<close>.\<close>

definition endsWith :: "string \<Rightarrow> string \<Rightarrow> bool" where
  "endsWith s suf = suffix suf s"

text \<open>
  \<^verbatim>\<open>s.replace(pat, rep)\<close> with a string pattern: only the first (leftmost) occurrence
  of \<open>pat\<close> is replaced. The replacement used by the program is the empty string, so the
  \<open>$\<close>-patterns of a replacement string do not arise.
\<close>

fun replace_first :: "string \<Rightarrow> string \<Rightarrow> string \<Rightarrow> string" where
  "replace_first pat rep [] = (if pat = [] then rep else [])"
| "replace_first pat rep (c # cs) =
     (if prefix pat (c # cs) then rep @ drop (length pat) (c # cs)
      else c # replace_first pat rep cs)"

section \<open>Tenant resolver: the middleware\<close>

text \<open>
  The request as the middleware reads it: the \<open>host\<close> header (\<open>headers.get\<close> gives
  \<open>null\<close> when it is absent) and the query of \<open>request.url\<close> as \<open>new URL\<close> parses it,
  the decoded pairs in order. \<open>new URL\<close> throws a \<open>TypeError\<close> on a string that is not an
  absolute URL: \<open>None\<close>.
\<close>

datatype js_error = TypeError_Invalid_URL

record request =
  headers_host :: "string option"
  url_searchParams :: "(string \<times> string) list option"

text \<open>\<^verbatim>\<open>searchParams.get(name)\<close>: the value of the first pair with that name.\<close>

definition searchParams_get :: "(string \<times> string) list \<Rightarrow> string \<Rightarrow> string option" where
  "searchParams_get ps name = map_of ps name"

record set_cookie =
  cookie_name :: string
  cookie_value :: string
  cookie_path :: string
  cookie_sameSite :: string
  cookie_httpOnly :: bool
  cookie_maxAge :: nat

text \<open>The response is \<open>NextResponse.next()\<close> with the cookies set on it.\<close>

type_synonym response = "set_cookie list"

definition middleware_hostname :: "request \<Rightarrow> string" where
  "middleware_hostname r =
     (let host = (case headers_host r of None \<Rightarrow> [] | Some h \<Rightarrow> h)
      in toLowerCase (split_colon_0 host))"

text \<open>The value of the local \<open>spaceId\<close> when the cookie is set.\<close>

definition middleware_spaceId :: "request \<Rightarrow> js_error + string" where
  "middleware_spaceId r =
     (let hostname = middleware_hostname r;
          spaceId = (if endsWith hostname ''.rswag.online''
                     then replace_first ''.rswag.online'' [] hostname
                     else ''default'')
      in if hostname = ''localhost'' \<or> hostname = ''127.0.0.1''
         then (case url_searchParams r of
                 None \<Rightarrow> Inl TypeError_Invalid_URL
               | Some ps \<Rightarrow>
                   (case searchParams_get ps ''_space'' of
                      None \<Rightarrow> Inr spaceId
                    | Some spaceParam \<Rightarrow>
                        if spaceParam \<noteq> [] then Inr spaceParam else Inr spaceId))
         else Inr spaceId)"

definition middleware :: "request \<Rightarrow> js_error + response" where
  "middleware r =
     (case middleware_spaceId r of
        Inl e \<Rightarrow> Inl e
      | Inr spaceId \<Rightarrow>
          Inr [\<lparr>cookie_name = ''space_id'', cookie_value = spaceId, cookie_path = ''/'',
                cookie_sameSite = ''lax'', cookie_httpOnly = False, cookie_maxAge = 86400\<rparr>])"

section \<open>Cart key scoper\<close>

text \<open>
  \<^verbatim>\<open>getCartKey(spaceId?: string)\<close>: the argument may be left out (\<open>undefined\<close>, here
  \<open>None\<close>). \<open>!spaceId\<close> holds for \<open>undefined\<close> and for the empty string.
\<close>

definition getCartKey :: "string option \<Rightarrow> string" where
  "getCartKey spaceId =
     (case spaceId of
        None \<Rightarrow> ''cart_id''
      | Some s \<Rightarrow> if s = [] \<or> s = ''default'' then ''cart_id'' else ''cart_id_'' @ s)"

text \<open>
  \<^verbatim>\<open>\s\<close> of a regular expression on the code units \<open>0..255\<close>: tab, line feed,
  vertical tab, form feed, carriage return, space and the no-break space.
\<close>

definition is_regex_space :: "char \<Rightarrow> bool" where
  "is_regex_space c \<longleftrightarrow>
     c \<in> set [CHR 0x09, CHR 0x0A, CHR 0x0B, CHR 0x0C, CHR 0x0D, CHR '' '', CHR 0xA0]"

text \<open>
  The first capture group of the leftmost match of
  \<^verbatim>\<open>/(?:^|;\s*)space_id=([^;]*)/\<close>. At a semicolon the greedy \<open>\s*\<close> must take the
  whole run of white space, since the next character has to be the \<open>s\<close> of the name; the
  group is greedy, so it runs to the next semicolon or the end.
\<close>

definition capture_value :: "string \<Rightarrow> string" where
  "capture_value s = takeWhile (\<lambda>c. c \<noteq> CHR '';'') (drop (length ''space_id='') s)"

fun match_after_semicolon :: "string \<Rightarrow> string option" where
  "match_after_semicolon [] = None"
| "match_after_semicolon (c # cs) =
     (if c = CHR '';'' \<and> prefix ''space_id='' (dropWhile is_regex_space cs)
      then Some (capture_value (dropWhile is_regex_space cs))
      else match_after_semicolon cs)"

definition match_space_id :: "string \<Rightarrow> string option" where
  "match_space_id s =
     (if prefix ''space_id='' s then Some (capture_value s) else match_after_semicolon s)"

text \<open>
  \<^verbatim>\<open>getSpaceIdFromCookie()\<close> reads the global \<open>document\<close>: \<open>None\<close> where it is not
  defined (on the server), otherwise the string \<open>document.cookie\<close>.
\<close>

definition getSpaceIdFromCookie :: "string option \<Rightarrow> string" where
  "getSpaceIdFromCookie document =
     (case document of
        None \<Rightarrow> ''default''
      | Some cookie \<Rightarrow>
          (case match_space_id cookie of Some v \<Rightarrow> v | None \<Rightarrow> ''default''))"

section \<open>Local storage and the cart pages\<close>

type_synonym localStorage = "string \<rightharpoonup> string"

definition getItem :: "localStorage \<Rightarrow> string \<Rightarrow> string option" where
  "getItem ls k = ls k"

definition removeItem :: "string \<Rightarrow> localStorage \<Rightarrow> localStorage" where
  "removeItem k ls = ls(k := None)"

text \<open>The effect of \<open>CheckoutSuccessPage\<close> on the local storage.\<close>

definition CheckoutSuccessPage :: "string option \<Rightarrow> localStorage \<Rightarrow> localStorage" where
  "CheckoutSuccessPage document ls =
     (let cartKey = getCartKey (Some (getSpaceIdFromCookie document))
      in removeItem cartKey ls)"

text \<open>
  What \<open>await fetch(url)\<close> gives: the promise is rejected, or there is a response with
  its \<open>ok\<close> flag and the value of \<open>res.json()\<close>, \<open>None\<close> when that is rejected.
\<close>

datatype 'a fetch_result = Fetch_rejected | Fetch_response bool "'a option"

text \<open>\<^verbatim>\<open>process.env.NEXT_PUBLIC_API_URL || "http://localhost:8000/api"\<close>.\<close>

definition API_URL :: "string option \<Rightarrow> string" where
  "API_URL env =
     (case env of
        None \<Rightarrow> ''http://localhost:8000/api''
      | Some u \<Rightarrow> if u \<noteq> [] then u else ''http://localhost:8000/api'')"

record 'c cart_page =
  cart :: "'c option"
  loading :: bool

text \<open>\<open>fetchCart\<close> of the cart page, on the local storage and the state of the page.\<close>

definition fetchCart ::
  "string \<Rightarrow> string option \<Rightarrow> (string \<Rightarrow> 'c fetch_result) \<Rightarrow>
     localStorage \<times> 'c cart_page \<Rightarrow> localStorage \<times> 'c cart_page" where
  "fetchCart api document fetch st =
     (let ls = fst st; page = snd st;
          cartKey = getCartKey (Some (getSpaceIdFromCookie document));
          cartId = getItem ls cartKey
      in case cartId of
           None \<Rightarrow> (ls, page\<lparr>loading := False\<rparr>)
         | Some cid \<Rightarrow>
             if cid = [] then (ls, page\<lparr>loading := False\<rparr>)
             else (case fetch (api @ ''/cart/'' @ cid) of
                     Fetch_rejected \<Rightarrow> (ls, page\<lparr>cart := None, loading := False\<rparr>)
                   | Fetch_response ok body \<Rightarrow>
                       if ok then
                         (case body of
                            None \<Rightarrow> (ls, page\<lparr>cart := None, loading := False\<rparr>)
                          | Some data \<Rightarrow> (ls, page\<lparr>cart := Some data, loading := False\<rparr>))
                       else (removeItem cartKey ls, page\<lparr>cart := None, loading := False\<rparr>)))"

section \<open>Theme injector\<close>

text \<open>
  A theme object is a map from property names to values; a property that the
  configuration leaves out is \<open>undefined\<close>, here \<open>None\<close>.
\<close>

type_synonym SpaceTheme = "string \<rightharpoonup> string"

definition THEME_VAR_MAP :: "(string \<times> string) list" where
  "THEME_VAR_MAP =
     [(''primary'', ''--primary''),
      (''primary_foreground'', ''--primary-foreground''),
      (''secondary'', ''--secondary''),
      (''secondary_foreground'', ''--secondary-foreground''),
      (''background'', ''--background''),
      (''foreground'', ''--foreground''),
      (''card'', ''--card''),
      (''card_foreground'', ''--card-foreground''),
      (''popover'', ''--popover''),
      (''popover_foreground'', ''--popover-foreground''),
      (''muted'', ''--muted''),
      (''muted_foreground'', ''--muted-foreground''),
      (''accent'', ''--accent''),
      (''accent_foreground'', ''--accent-foreground''),
      (''destructive'', ''--destructive''),
      (''destructive_foreground'', ''--destructive-foreground''),
      (''border'', ''--border''),
      (''input'', ''--input''),
      (''ring'', ''--ring'')]"

text \<open>The truth value of \<open>theme[key]\<close>: false for \<open>undefined\<close> and for the empty string.\<close>

definition theme_truthy :: "SpaceTheme \<Rightarrow> string \<Rightarrow> bool" where
  "theme_truthy theme key = (case theme key of None \<Rightarrow> False | Some v \<Rightarrow> v \<noteq> [])"

text \<open>\<open>theme[key]\<close> inside a template literal.\<close>

definition theme_text :: "SpaceTheme \<Rightarrow> string \<Rightarrow> string" where
  "theme_text theme key = (case theme key of None \<Rightarrow> ''undefined'' | Some v \<Rightarrow> v)"

text \<open>\<^verbatim>\<open>xs.join(sep)\<close>.\<close>

fun join :: "string \<Rightarrow> string list \<Rightarrow> string" where
  "join sep [] = []"
| "join sep [x] = x"
| "join sep (x # y # ys) = x @ sep @ join sep (y # ys)"

text \<open>The array that \<open>themeToCSS\<close> joins: the entries that pass the filter, mapped.\<close>

definition themeToCSS_assignments :: "SpaceTheme \<Rightarrow> string list" where
  "themeToCSS_assignments theme =
     map (\<lambda>(key, cssVar). cssVar @ '': '' @ theme_text theme key @ '';'')
       (filter (\<lambda>(key, cssVar). theme_truthy theme key) THEME_VAR_MAP)"

definition themeToCSS :: "SpaceTheme \<Rightarrow> string" where
  "themeToCSS theme = join (CHR 0x0A # ''    '') (themeToCSS_assignments theme)"

section \<open>Catalog fetch\<close>

text \<open>
  The serializer of \<open>URLSearchParams\<close> (\<open>application/x-www-form-urlencoded\<close>): the
  string is encoded in UTF-8, a code unit \<open>128..255\<close> giving two bytes; letters, digits
  and \<open>* - . _\<close> are kept, a space becomes \<open>+\<close>, every other byte is written \<open>%XX\<close>.
\<close>

definition urlencoded_safe :: string where
  "urlencoded_safe =
     ''ABCDEFGHIJKLMNOPQRSTUVWXYZabcdefghijklmnopqrstuvwxyz0123456789*-._''"

definition percent_byte :: "nat \<Rightarrow> string" where
  "percent_byte n =
     [CHR ''%'', ''0123456789ABCDEF'' ! (n div 16), ''0123456789ABCDEF'' ! (n mod 16)]"

definition urlencode_char :: "char \<Rightarrow> string" where
  "urlencode_char c =
     (let n = (of_char c :: nat)
      in if c \<in> set urlencoded_safe then [c]
         else if c = CHR '' '' then ''+''
         else if n < 128 then percent_byte n
         else percent_byte (192 + n div 64) @ percent_byte (128 + n mod 64))"

definition urlencode :: "string \<Rightarrow> string" where
  "urlencode s = concat (map urlencode_char s)"

type_synonym URLSearchParams = "(string \<times> string) list"

text \<open>\<^verbatim>\<open>params.set(name, value)\<close>: the first pair of that name takes the value and the
  later ones are removed; without such a pair the new one is appended.\<close>

fun searchParams_set :: "string \<Rightarrow> string \<Rightarrow> URLSearchParams \<Rightarrow> URLSearchParams" where
  "searchParams_set k v [] = [(k, v)]"
| "searchParams_set k v (p # ps) =
     (if fst p = k then (k, v) # filter (\<lambda>q. fst q \<noteq> k) ps
      else p # searchParams_set k v ps)"

definition searchParams_toString :: "URLSearchParams \<Rightarrow> string" where
  "searchParams_toString ps =
     join ''&'' (map (\<lambda>(k, v). urlencode k @ ''='' @ urlencode v) ps)"

definition getProducts_params :: "string \<Rightarrow> URLSearchParams" where
  "getProducts_params spaceId =
     (if spaceId \<noteq> [] \<and> spaceId \<noteq> ''default''
      then searchParams_set ''space'' spaceId []
      else [])"

text \<open>The URL that \<open>getProducts\<close> fetches.\<close>

definition getProducts_url :: "string \<Rightarrow> string \<Rightarrow> string" where
  "getProducts_url api spaceId =
     (let params = getProducts_params spaceId
      in api @ ''/products'' @
         (if searchParams_toString params \<noteq> [] then ''?'' @ searchParams_toString params
          else []))"

text \<open>
  \<open>getProducts\<close>: an empty list when the fetch is rejected or the response is not
  \<open>ok\<close>. The promise of \<open>res.json()\<close> is returned without \<open>await\<close>, so its rejection
  is not caught by the \<open>try\<close> and is the outcome of \<open>getProducts\<close>.
\<close>

datatype fetch_error = Json_rejected

definition getProducts ::
  "string \<Rightarrow> (string \<Rightarrow> 'p list fetch_result) \<Rightarrow> string \<Rightarrow> fetch_error + 'p list" where
  "getProducts api fetch spaceId =
     (case fetch (getProducts_url api spaceId) of
        Fetch_rejected \<Rightarrow> Inr []
      | Fetch_response ok body \<Rightarrow>
          if \<not> ok then Inr []
          else (case body of None \<Rightarrow> Inl Json_rejected | Some ps \<Rightarrow> Inr ps))"

text \<open>\<^verbatim>\<open>cookieStore.get("space_id")?.value || "default"\<close> of the server-rendered pages.\<close>

definition cookie_spaceId :: "string option \<Rightarrow> string" where
  "cookie_spaceId v = (case v of None \<Rightarrow> ''default'' | Some s \<Rightarrow> if s \<noteq> [] then s else ''default'')"

section \<open>Properties of the cart key\<close>

text \<open>
  Claim C9. \<open>getCartKey\<close> gives the unscoped base key \<open>cart_id\<close> for the empty
  tenant id, for a tenant id that is left out and for the default token; so the two
  distinct tenant ids \<open>""\<close> and \<open>"default"\<close> have the same cart storage key.
\<close>

theorem getCartKey_empty_collides:
  "getCartKey (Some '''') = ''cart_id'' \<and> getCartKey None = ''cart_id'' \<and>
   getCartKey (Some ''default'') = ''cart_id'' \<and>
   ('''' :: string) \<noteq> ''default'' \<and>
   getCartKey (Some '''') = getCartKey (Some ''default'')"
  by (simp add: getCartKey_def)

text \<open>
  Claim C2, as stated, asks for distinct keys for every two distinct tenant ids. The
  empty tenant id and the default token are distinct and share a key.
\<close>

theorem getCartKey_not_injective:
  "Some ('''' :: string) \<noteq> Some ''default'' \<and>
   getCartKey (Some '''') = getCartKey (Some ''default'')"
  by (simp add: getCartKey_def)

text \<open>
  Claim C2, amended. Two distinct tenant ids that are both non-empty have distinct
  keys (the default token included); equal arguments give equal keys, the function
  having no other input; and the key of the default token is the constant \<open>cart_id\<close>.
\<close>

theorem getCartKey_injective_nonempty:
  "(s \<noteq> [] \<and> t \<noteq> [] \<and> s \<noteq> t \<longrightarrow> getCartKey (Some s) \<noteq> getCartKey (Some t)) \<and>
   (x = y \<longrightarrow> getCartKey x = getCartKey y) \<and>
   getCartKey (Some ''default'') = ''cart_id''"
  by (auto simp add: getCartKey_def)

theorem getCartKey_injective_nonempty_witness:
  "''acme'' \<noteq> [] \<and> ''other'' \<noteq> [] \<and> ''acme'' \<noteq> ''other'' \<and>
   getCartKey (Some ''acme'') \<noteq> getCartKey (Some ''other'') \<and>
   getCartKey (Some ''acme'') = getCartKey (Some ''acme'')"
  using getCartKey_injective_nonempty [of "''acme''" "''other''" "Some ''acme''" "Some ''acme''"]
  by simp

text \<open>
  Claim C6, as stated, gives every tenant id other than the default token the key
  \<open>cart_id_\<close> followed by the id. The empty tenant id is not the default token, and
  its key is \<open>cart_id\<close>, not \<open>cart_id_\<close>.
\<close>

theorem getCartKey_suffix_counterexample:
  "('''' :: string) \<noteq> ''default'' \<and> getCartKey (Some '''') \<noteq> ''cart_id_'' @ ''''"
  by (simp add: getCartKey_def)

text \<open>
  Claim C6, amended. The default token has the key \<open>cart_id\<close>, and every other
  non-empty tenant id \<open>t\<close> has the key \<open>cart_id_\<close> followed by \<open>t\<close>.
\<close>

theorem getCartKey_value:
  "getCartKey (Some ''default'') = ''cart_id'' \<and>
   (t \<noteq> [] \<and> t \<noteq> ''default'' \<longrightarrow> getCartKey (Some t) = ''cart_id_'' @ t)"
  by (simp add: getCartKey_def)

theorem getCartKey_value_witness:
  "''acme'' \<noteq> [] \<and> ''acme'' \<noteq> ''default'' \<and> getCartKey (Some ''acme'') = ''cart_id_acme''"
  using getCartKey_value [of "''acme''"] by simp

section \<open>Properties of the tenant resolver\<close>

text \<open>
  Removing the first occurrence of the root-domain suffix gives back the label in front
  of it when that label has no dot: the first occurrence is then the trailing one.
\<close>

lemma replace_first_dotless:
  "CHR ''.'' \<notin> set l \<Longrightarrow> replace_first (CHR ''.'' # pat) [] (l @ CHR ''.'' # pat) = l"
  by (induction l) auto

lemma rswag_not_local:
  "l @ ''.rswag.online'' \<noteq> ''localhost''" "l @ ''.rswag.online'' \<noteq> ''127.0.0.1''"
proof -
  have "last (l @ ''.rswag.online'') = CHR ''e''" by simp
  then show "l @ ''.rswag.online'' \<noteq> ''localhost''" "l @ ''.rswag.online'' \<noteq> ''127.0.0.1''"
    by auto
qed

lemma local_not_rswag:
  "\<not> endsWith ''localhost'' ''.rswag.online''" "\<not> endsWith ''127.0.0.1'' ''.rswag.online''"
  by code_simp+

lemma middleware_single_label:
  assumes "middleware_hostname r = l @ ''.rswag.online''" and "CHR ''.'' \<notin> set l"
  shows "middleware_spaceId r = Inr l"
proof -
  have "endsWith (l @ ''.rswag.online'') ''.rswag.online''"
    by (simp add: endsWith_def suffix_def)
  moreover have "replace_first ''.rswag.online'' [] (l @ ''.rswag.online'') = l"
    using replace_first_dotless [OF assms(2), of "''rswag.online''"] by simp
  ultimately show ?thesis
    using assms(1) rswag_not_local [of l]
    by (simp add: middleware_spaceId_def Let_def)
qed

text \<open>
  Claim C1 says that a host name ending with \<open>.rswag.online\<close> resolves to what stands
  in front of that suffix. The middleware tests the end of the host name and then
  removes the first occurrence of the suffix, which need not be the trailing one: the
  host \<open>a.rswag.online-staging.rswag.online\<close> is \<open>a.rswag.online-staging\<close> followed by
  the suffix, and resolves to \<open>a-staging.rswag.online\<close>.
\<close>

theorem middleware_nested_suffix:
  "middleware_hostname \<lparr>headers_host = Some ''a.rswag.online-staging.rswag.online'',
        url_searchParams = Some []\<rparr> = ''a.rswag.online-staging'' @ ''.rswag.online'' \<and>
   middleware_spaceId \<lparr>headers_host = Some ''a.rswag.online-staging.rswag.online'',
        url_searchParams = Some []\<rparr> = Inr ''a-staging.rswag.online'' \<and>
   ''a-staging.rswag.online'' \<noteq> ''a.rswag.online-staging''"
  by code_simp

lemma middleware_hostname_cong:
  "headers_host r1 = headers_host r2 \<Longrightarrow> middleware_hostname r1 = middleware_hostname r2"
  by (simp add: middleware_hostname_def)

text \<open>
  Claim C3. The \<open>_space\<close> query parameter has no influence on a host that is not a
  local one: two requests with the same host header, whose host name (port stripped,
  lower case) is neither \<open>localhost\<close> nor \<open>127.0.0.1\<close>, resolve to the same tenant id
  and get the same response, whatever their queries are.
\<close>

theorem middleware_query_ignored_off_local:
  assumes "headers_host r1 = headers_host r2"
    and "middleware_hostname r1 \<noteq> ''localhost''"
    and "middleware_hostname r1 \<noteq> ''127.0.0.1''"
  shows "middleware_spaceId r1 = middleware_spaceId r2 \<and> middleware r1 = middleware r2"
proof -
  have h: "middleware_hostname r2 = middleware_hostname r1"
    using middleware_hostname_cong [OF assms(1)] by (rule sym)
  have "middleware_spaceId r1 = middleware_spaceId r2"
    using assms(2,3) h by (simp add: middleware_spaceId_def Let_def)
  then show ?thesis by (simp add: middleware_def)
qed

theorem middleware_query_ignored_off_local_witness:
  "headers_host \<lparr>headers_host = Some ''Acme.rswag.online:443'',
                  url_searchParams = Some [(''_space'', ''other'')]\<rparr> =
   headers_host \<lparr>headers_host = Some ''Acme.rswag.online:443'', url_searchParams = Some []\<rparr> \<and>
   middleware_hostname \<lparr>headers_host = Some ''Acme.rswag.online:443'',
                  url_searchParams = Some [(''_space'', ''other'')]\<rparr> \<noteq> ''localhost'' \<and>
   middleware_hostname \<lparr>headers_host = Some ''Acme.rswag.online:443'',
                  url_searchParams = Some [(''_space'', ''other'')]\<rparr> \<noteq> ''127.0.0.1'' \<and>
   middleware_spaceId \<lparr>headers_host = Some ''Acme.rswag.online:443'',
                  url_searchParams = Some [(''_space'', ''other'')]\<rparr> =
   middleware_spaceId \<lparr>headers_host = Some ''Acme.rswag.online:443'', url_searchParams = Some []\<rparr>"
proof -
  let ?r1 = "\<lparr>headers_host = Some ''Acme.rswag.online:443'',
              url_searchParams = Some [(''_space'', ''other'')]\<rparr>"
  let ?r2 = "\<lparr>headers_host = Some ''Acme.rswag.online:443'', url_searchParams = Some []\<rparr>"
  have h1: "headers_host ?r1 = headers_host ?r2" by simp
  have h2: "middleware_hostname ?r1 \<noteq> ''localhost''" by code_simp
  have h3: "middleware_hostname ?r1 \<noteq> ''127.0.0.1''" by code_simp
  note t = middleware_query_ignored_off_local [OF h1 h2 h3]
  show ?thesis
    by (intro conjI h1 h2 h3 t [THEN conjunct1])
qed

text \<open>
  Claim C4. For every host header, absent, empty or malformed ones included, whose host
  name (port stripped, lower case) does not end with \<open>.rswag.online\<close> and is not a
  local host, the middleware returns a response (it does not throw, whether or not the
  URL of the request parses) and the tenant id is the default token.
\<close>

theorem middleware_default_fallback:
  assumes "\<not> endsWith (middleware_hostname r) ''.rswag.online''"
    and "middleware_hostname r \<noteq> ''localhost''"
    and "middleware_hostname r \<noteq> ''127.0.0.1''"
  shows "middleware_spaceId r = Inr ''default'' \<and>
         middleware r = Inr [\<lparr>cookie_name = ''space_id'', cookie_value = ''default'',
            cookie_path = ''/'', cookie_sameSite = ''lax'', cookie_httpOnly = False,
            cookie_maxAge = 86400\<rparr>]"
  using assms by (simp add: middleware_def middleware_spaceId_def Let_def)

theorem middleware_default_fallback_witness:
  "middleware_spaceId \<lparr>headers_host = None, url_searchParams = None\<rparr> = Inr ''default'' \<and>
   middleware_spaceId \<lparr>headers_host = Some '''', url_searchParams = None\<rparr> = Inr ''default'' \<and>
   middleware_spaceId \<lparr>headers_host = Some ''http//nodot'',
       url_searchParams = Some [(''_space'', ''acme'')]\<rparr> = Inr ''default''"
proof -
  let ?a = "\<lparr>headers_host = None, url_searchParams = None\<rparr>"
  let ?b = "\<lparr>headers_host = Some '''', url_searchParams = None\<rparr>"
  let ?c = "\<lparr>headers_host = Some ''http//nodot'',
             url_searchParams = Some [(''_space'', ''acme'')]\<rparr>"
  have a: "\<not> endsWith (middleware_hostname ?a) ''.rswag.online''"
    "middleware_hostname ?a \<noteq> ''localhost''" "middleware_hostname ?a \<noteq> ''127.0.0.1''"
    by code_simp+
  have b: "\<not> endsWith (middleware_hostname ?b) ''.rswag.online''"
    "middleware_hostname ?b \<noteq> ''localhost''" "middleware_hostname ?b \<noteq> ''127.0.0.1''"
    by code_simp+
  have c: "\<not> endsWith (middleware_hostname ?c) ''.rswag.online''"
    "middleware_hostname ?c \<noteq> ''localhost''" "middleware_hostname ?c \<noteq> ''127.0.0.1''"
    by code_simp+
  show ?thesis
    by (intro conjI middleware_default_fallback [OF a, THEN conjunct1]
        middleware_default_fallback [OF b, THEN conjunct1]
        middleware_default_fallback [OF c, THEN conjunct1])
qed

text \<open>
  Claim C5. On a local host (\<open>localhost\<close> or \<open>127.0.0.1\<close>) a request whose query has
  \<open>_space=acme\<close> resolves to the tenant id \<open>acme\<close>, and a request whose query has no
  \<open>_space\<close> parameter resolves to the default token: the middleware returns the
  response that sets the cookie \<open>space_id\<close> to that tenant id.
\<close>

theorem middleware_local_override:
  assumes "middleware_hostname r = ''localhost'' \<or> middleware_hostname r = ''127.0.0.1''"
    and "url_searchParams r = Some ps"
  shows "(searchParams_get ps ''_space'' = Some ''acme'' \<longrightarrow>
            middleware_spaceId r = Inr ''acme'' \<and>
            middleware r = Inr [\<lparr>cookie_name = ''space_id'', cookie_value = ''acme'',
              cookie_path = ''/'', cookie_sameSite = ''lax'', cookie_httpOnly = False,
              cookie_maxAge = 86400\<rparr>]) \<and>
         (searchParams_get ps ''_space'' = None \<longrightarrow>
            middleware_spaceId r = Inr ''default'' \<and>
            middleware r = Inr [\<lparr>cookie_name = ''space_id'', cookie_value = ''default'',
              cookie_path = ''/'', cookie_sameSite = ''lax'', cookie_httpOnly = False,
              cookie_maxAge = 86400\<rparr>])"
proof -
  have a: "searchParams_get ps ''_space'' = Some ''acme'' \<Longrightarrow> middleware_spaceId r = Inr ''acme''"
    using assms by (auto simp add: middleware_spaceId_def Let_def)
  have b: "searchParams_get ps ''_space'' = None \<Longrightarrow> middleware_spaceId r = Inr ''default''"
    using assms local_not_rswag by (auto simp add: middleware_spaceId_def Let_def)
  show ?thesis
    using a b by (simp add: middleware_def)
qed

theorem middleware_local_override_witness:
  "middleware \<lparr>headers_host = Some ''localhost:3000'',
       url_searchParams = Some [(''_space'', ''acme'')]\<rparr> =
     Inr [\<lparr>cookie_name = ''space_id'', cookie_value = ''acme'', cookie_path = ''/'',
           cookie_sameSite = ''lax'', cookie_httpOnly = False, cookie_maxAge = 86400\<rparr>] \<and>
   middleware \<lparr>headers_host = Some ''127.0.0.1'',
       url_searchParams = Some [(''page'', ''2'')]\<rparr> =
     Inr [\<lparr>cookie_name = ''space_id'', cookie_value = ''default'', cookie_path = ''/'',
           cookie_sameSite = ''lax'', cookie_httpOnly = False, cookie_maxAge = 86400\<rparr>] \<and>
   middleware_spaceId \<lparr>headers_host = Some ''localhost:3000'',
       url_searchParams = Some [(''_space'', ''acme'')]\<rparr> = Inr ''acme'' \<and>
   middleware_spaceId \<lparr>headers_host = Some ''127.0.0.1'',
       url_searchParams = Some [(''page'', ''2'')]\<rparr> = Inr ''default''"
proof -
  let ?a = "\<lparr>headers_host = Some ''localhost:3000'',
             url_searchParams = Some [(''_space'', ''acme'')]\<rparr>"
  let ?b = "\<lparr>headers_host = Some ''127.0.0.1'', url_searchParams = Some [(''page'', ''2'')]\<rparr>"
  have a: "middleware_hostname ?a = ''localhost'' \<or> middleware_hostname ?a = ''127.0.0.1''"
    by code_simp
  have a': "url_searchParams ?a = Some [(''_space'', ''acme'')]" by simp
  have a'': "searchParams_get [(''_space'', ''acme'')] ''_space'' = Some ''acme''" by code_simp
  have b: "middleware_hostname ?b = ''localhost'' \<or> middleware_hostname ?b = ''127.0.0.1''"
    by code_simp
  have b': "url_searchParams ?b = Some [(''page'', ''2'')]" by simp
  have b'': "searchParams_get [(''page'', ''2'')] ''_space'' = None" by code_simp
  note ta = middleware_local_override [OF a a', THEN conjunct1, THEN mp, OF a'']
  note tb = middleware_local_override [OF b b', THEN conjunct2, THEN mp, OF b'']
  show ?thesis
    by (intro conjI ta [THEN conjunct2] tb [THEN conjunct2] ta [THEN conjunct1]
        tb [THEN conjunct1])
qed

section \<open>Properties of clearing the cart\<close>

lemma getCartKey_eq_iff:
  "getCartKey (Some s) = getCartKey (Some t) \<longleftrightarrow>
     s = t \<or> ((s = [] \<or> s = ''default'') \<and> (t = [] \<or> t = ''default''))"
  by (auto simp add: getCartKey_def)

lemma fetchCart_storage:
  "fst (fetchCart api document fetch (ls, page)) = ls \<or>
   fst (fetchCart api document fetch (ls, page)) =
     removeItem (getCartKey (Some (getSpaceIdFromCookie document))) ls"
  by (simp add: fetchCart_def Let_def split: option.split fetch_result.split)

lemma fetchCart_expired:
  assumes "getItem ls (getCartKey (Some (getSpaceIdFromCookie document))) = Some cid"
    and "cid \<noteq> []" and "fetch (api @ ''/cart/'' @ cid) = Fetch_response False body"
  shows "fetchCart api document fetch (ls, page) =
     (removeItem (getCartKey (Some (getSpaceIdFromCookie document))) ls,
      page\<lparr>cart := None, loading := False\<rparr>)"
  using assms by (simp add: fetchCart_def Let_def)

text \<open>
  Claim C10, as stated, leaves the cart-key entry of every other tenant id unchanged.
  With the cookie \<open>space_id=\<close> the current tenant id is the empty string; the
  tenant id \<open>default\<close> is another one, and its entry \<open>cart_id\<close> is removed.
\<close>

theorem clear_cart_collision:
  "getSpaceIdFromCookie (Some ''space_id='') = '''' \<and> ''default'' \<noteq> '''' \<and>
   map_of [(''cart_id'', ''c1'')] (getCartKey (Some ''default'')) = Some ''c1'' \<and>
   CheckoutSuccessPage (Some ''space_id='') (map_of [(''cart_id'', ''c1'')])
     (getCartKey (Some ''default'')) = None"
  by code_simp

text \<open>
  Claim C10, amended. Clearing the cart on the checkout success page, and \<open>fetchCart\<close>
  on an expired cart (a response that is not \<open>ok\<close>), remove the storage entry under
  the cart key of the tenant id read from the cookie. Every entry under another key is
  unchanged by both; so is the cart-key entry of every other tenant id \<open>t\<close>, the empty
  tenant id and \<open>default\<close> counting as one tenant, since they share the key
  \<open>cart_id\<close>.
\<close>

theorem clear_cart_frame:
  assumes "cur = getSpaceIdFromCookie document"
    and "t \<noteq> cur"
    and "\<not> (t = [] \<and> cur = ''default'')"
    and "\<not> (t = ''default'' \<and> cur = [])"
  shows "CheckoutSuccessPage document ls (getCartKey (Some cur)) = None \<and>
         CheckoutSuccessPage document ls (getCartKey (Some t)) = ls (getCartKey (Some t)) \<and>
         (\<forall>k. k \<noteq> getCartKey (Some cur) \<longrightarrow> CheckoutSuccessPage document ls k = ls k) \<and>
         fst (fetchCart api document fetch (ls, page)) (getCartKey (Some t)) =
           ls (getCartKey (Some t)) \<and>
         (\<forall>k. k \<noteq> getCartKey (Some cur) \<longrightarrow>
            fst (fetchCart api document fetch (ls, page)) k = ls k) \<and>
         (\<forall>cid body. getItem ls (getCartKey (Some cur)) = Some cid \<and> cid \<noteq> [] \<and>
            fetch (api @ ''/cart/'' @ cid) = Fetch_response False body \<longrightarrow>
            fst (fetchCart api document fetch (ls, page)) (getCartKey (Some cur)) = None)"
proof -
  have ne: "getCartKey (Some t) \<noteq> getCartKey (Some cur)"
    using assms(2,3,4) by (auto simp add: getCartKey_eq_iff)
  have a: "CheckoutSuccessPage document ls (getCartKey (Some cur)) = None"
    by (simp add: CheckoutSuccessPage_def removeItem_def assms(1))
  have b: "\<forall>k. k \<noteq> getCartKey (Some cur) \<longrightarrow> CheckoutSuccessPage document ls k = ls k"
    by (simp add: CheckoutSuccessPage_def removeItem_def assms(1))
  have c: "\<forall>k. k \<noteq> getCartKey (Some cur) \<longrightarrow>
             fst (fetchCart api document fetch (ls, page)) k = ls k"
    using fetchCart_storage [of api document fetch ls page]
    by (auto simp add: removeItem_def assms(1))
  have d: "\<forall>cid body. getItem ls (getCartKey (Some cur)) = Some cid \<and> cid \<noteq> [] \<and>
            fetch (api @ ''/cart/'' @ cid) = Fetch_response False body \<longrightarrow>
            fst (fetchCart api document fetch (ls, page)) (getCartKey (Some cur)) = None"
    by (auto simp add: fetchCart_expired assms(1) removeItem_def)
  show ?thesis using ne a b c d by blast
qed

theorem clear_cart_frame_witness:
  "CheckoutSuccessPage (Some ''theme=dark; space_id=acme'')
     (map_of [(''cart_id_acme'', ''c1''), (''cart_id'', ''c0''), (''cart_id_other'', ''c2'')])
     (getCartKey (Some ''acme'')) = None \<and>
   CheckoutSuccessPage (Some ''theme=dark; space_id=acme'')
     (map_of [(''cart_id_acme'', ''c1''), (''cart_id'', ''c0''), (''cart_id_other'', ''c2'')])
     (getCartKey (Some ''other'')) = Some ''c2'' \<and>
   fst (fetchCart ''http://localhost:8000/api'' (Some ''theme=dark; space_id=acme'')
          (\<lambda>url. Fetch_response False None)
          (map_of [(''cart_id_acme'', ''c1''), (''cart_id'', ''c0''), (''cart_id_other'', ''c2'')],
           \<lparr>cart = (None :: unit option), loading = True\<rparr>))
     (getCartKey (Some ''other'')) = Some ''c2'' \<and>
   fst (fetchCart ''http://localhost:8000/api'' (Some ''theme=dark; space_id=acme'')
          (\<lambda>url. Fetch_response False None)
          (map_of [(''cart_id_acme'', ''c1''), (''cart_id'', ''c0''), (''cart_id_other'', ''c2'')],
           \<lparr>cart = (None :: unit option), loading = True\<rparr>))
     (getCartKey (Some ''acme'')) = None"
proof -
  let ?doc = "Some ''theme=dark; space_id=acme''"
  let ?ls = "map_of [(''cart_id_acme'', ''c1''), (''cart_id'', ''c0''), (''cart_id_other'', ''c2'')]"
  let ?fetch = "\<lambda>url :: string. Fetch_response False (None :: unit option)"
  let ?page = "\<lparr>cart = (None :: unit option), loading = True\<rparr>"
  have h1: "''acme'' = getSpaceIdFromCookie ?doc" by code_simp
  have h2: "''other'' \<noteq> ''acme''" by simp
  have h3: "\<not> (''other'' = [] \<and> ''acme'' = ''default'')" by simp
  have h4: "\<not> (''other'' = ''default'' \<and> ''acme'' = [])" by simp
  have v: "?ls (getCartKey (Some ''other'')) = Some ''c2''" by code_simp
  have g: "getItem ?ls (getCartKey (Some ''acme'')) = Some ''c1'' \<and> ''c1'' \<noteq> [] \<and>
           ?fetch (''http://localhost:8000/api'' @ ''/cart/'' @ ''c1'') = Fetch_response False None"
    by code_simp
  note t = clear_cart_frame [OF h1 h2 h3 h4, where ls = ?ls
      and api = "''http://localhost:8000/api''" and fetch = ?fetch and page = ?page]
  have a: "CheckoutSuccessPage ?doc ?ls (getCartKey (Some ''acme'')) = None"
    by (rule t [THEN conjunct1])
  have b: "CheckoutSuccessPage ?doc ?ls (getCartKey (Some ''other'')) = Some ''c2''"
    using t [THEN conjunct2, THEN conjunct1] by (simp only: v)
  have c: "fst (fetchCart ''http://localhost:8000/api'' ?doc ?fetch (?ls, ?page))
             (getCartKey (Some ''other'')) = Some ''c2''"
    using t [THEN conjunct2, THEN conjunct2, THEN conjunct2, THEN conjunct1] by (simp only: v)
  have d: "fst (fetchCart ''http://localhost:8000/api'' ?doc ?fetch (?ls, ?page))
             (getCartKey (Some ''acme'')) = None"
    using t [THEN conjunct2, THEN conjunct2, THEN conjunct2, THEN conjunct2, THEN conjunct2,
        THEN spec, THEN spec, THEN mp, OF g] .
  show ?thesis
    by (intro conjI a b c d)
qed

section \<open>Properties of the theme injector\<close>

lemma prefix_var_colon:
  "CHR '':'' \<notin> set v \<Longrightarrow> CHR '':'' \<notin> set w \<Longrightarrow>
   prefix (v @ CHR '':'' # r) (w @ CHR '':'' # r') \<Longrightarrow> v = w"
proof (induction v arbitrary: w)
  case Nil
  then show ?case by (cases w) auto
next
  case (Cons c v)
  then show ?case by (cases w) auto
qed

lemma THEME_VAR_MAP_colon_free:
  "\<forall>p \<in> set THEME_VAR_MAP. CHR '':'' \<notin> set (snd p)"
  by (simp add: THEME_VAR_MAP_def)

lemma THEME_VAR_MAP_distinct_vars: "distinct (map snd THEME_VAR_MAP)"
  by (simp add: THEME_VAR_MAP_def)

lemma THEME_VAR_MAP_distinct_keys: "distinct (map fst THEME_VAR_MAP)"
  by (simp add: THEME_VAR_MAP_def)

lemma prefix_var_iff:
  assumes "CHR '':'' \<notin> set v" and "CHR '':'' \<notin> set w"
  shows "prefix (v @ '': '') (w @ '': '' @ r) \<longleftrightarrow> v = w"
proof
  assume "prefix (v @ '': '') (w @ '': '' @ r)"
  then show "v = w"
    using prefix_var_colon [OF assms, of "'' ''" "'' '' @ r"] by simp
next
  assume "v = w"
  then show "prefix (v @ '': '') (w @ '': '' @ r)" by simp
qed

lemma filter_assignments_of_var:
  assumes "\<forall>p \<in> set xs. CHR '':'' \<notin> set (snd p)" and "CHR '':'' \<notin> set cssVar"
  shows "filter (prefix (cssVar @ '': ''))
           (map (\<lambda>(k, w). w @ '': '' @ txt k @ '';'') (filter (\<lambda>(k, w). P k) xs))
         = map (\<lambda>(k, w). w @ '': '' @ txt k @ '';'')
             (filter (\<lambda>(k, w). P k \<and> w = cssVar) xs)"
  using assms(1)
proof (induction xs)
  case Nil
  then show ?case by simp
next
  case (Cons p xs)
  obtain k w where p: "p = (k, w)" by (cases p)
  have cw: "CHR '':'' \<notin> set w"
    using Cons.prems p by simp
  have iff: "prefix (cssVar @ '': '') (w @ '': '' @ txt k @ '';'') \<longleftrightarrow> cssVar = w"
    using assms(2) cw by (rule prefix_var_iff)
  have IH: "filter (prefix (cssVar @ '': ''))
           (map (\<lambda>(k, w). w @ '': '' @ txt k @ '';'') (filter (\<lambda>(k, w). P k) xs))
         = map (\<lambda>(k, w). w @ '': '' @ txt k @ '';'')
             (filter (\<lambda>(k, w). P k \<and> w = cssVar) xs)"
    using Cons.IH Cons.prems by simp
  show ?case
  proof (cases "P k")
    case True
    have "filter (prefix (cssVar @ '': ''))
           (map (\<lambda>(k, w). w @ '': '' @ txt k @ '';'') (filter (\<lambda>(k, w). P k) (p # xs)))
        = filter (prefix (cssVar @ '': ''))
            ((w @ '': '' @ txt k @ '';'') #
             map (\<lambda>(k, w). w @ '': '' @ txt k @ '';'') (filter (\<lambda>(k, w). P k) xs))"
      using True p by simp
    also have "\<dots> = (if cssVar = w then [w @ '': '' @ txt k @ '';''] else []) @
            filter (prefix (cssVar @ '': ''))
              (map (\<lambda>(k, w). w @ '': '' @ txt k @ '';'') (filter (\<lambda>(k, w). P k) xs))"
      unfolding filter.simps iff by simp
    also have "\<dots> = map (\<lambda>(k, w). w @ '': '' @ txt k @ '';'')
             (filter (\<lambda>(k, w). P k \<and> w = cssVar) (p # xs))"
      unfolding IH using True p by auto
    finally show ?thesis .
  next
    case False
    then show ?thesis using IH p by simp
  qed
qed

lemma filter_var_distinct:
  assumes "distinct (map snd xs)" and "(key, cssVar) \<in> set xs"
  shows "filter (\<lambda>(k, w). P k \<and> w = cssVar) xs = (if P key then [(key, cssVar)] else [])"
  using assms
proof (induction xs)
  case Nil
  then show ?case by simp
next
  case (Cons p xs)
  obtain k w where p: "p = (k, w)" by (cases p)
  show ?case
  proof (cases "w = cssVar")
    case True
    then have "\<forall>q \<in> set xs. snd q \<noteq> cssVar"
      using Cons.prems(1) p by (auto simp add: image_iff)
    then have none: "filter (\<lambda>(k, w). P k \<and> w = cssVar) xs = []"
      by (auto simp add: filter_empty_conv)
    have "k = key"
      using Cons.prems True p by (force simp add: image_iff)
    then show ?thesis using none True p by simp
  next
    case False
    then have "(key, cssVar) \<in> set xs"
      using Cons.prems(2) p by auto
    then have "filter (\<lambda>(k, w). P k \<and> w = cssVar) xs = (if P key then [(key, cssVar)] else [])"
      using Cons.IH Cons.prems(1) by simp
    then show ?thesis using False p by simp
  qed
qed

lemma count_assignments_of_var:
  assumes "(key, cssVar) \<in> set THEME_VAR_MAP"
  shows "length (filter (prefix (cssVar @ '': '')) (themeToCSS_assignments theme))
         = (if theme_truthy theme key then 1 else 0)"
proof -
  have cf: "CHR '':'' \<notin> set cssVar"
    using THEME_VAR_MAP_colon_free assms by force
  have "filter (prefix (cssVar @ '': '')) (themeToCSS_assignments theme) =
        map (\<lambda>(k, w). w @ '': '' @ theme_text theme k @ '';'')
          (filter (\<lambda>(k, w). theme_truthy theme k \<and> w = cssVar) THEME_VAR_MAP)"
    unfolding themeToCSS_assignments_def
    using THEME_VAR_MAP_colon_free cf by (rule filter_assignments_of_var)
  also have "filter (\<lambda>(k, w). theme_truthy theme k \<and> w = cssVar) THEME_VAR_MAP =
        (if theme_truthy theme key then [(key, cssVar)] else [])"
    using THEME_VAR_MAP_distinct_vars assms by (rule filter_var_distinct)
  finally show ?thesis by simp
qed

lemma length_assignments:
  "length (themeToCSS_assignments theme) =
     card {key \<in> fst ` set THEME_VAR_MAP. theme_truthy theme key}"
proof -
  have "length (themeToCSS_assignments theme) =
          length (filter (theme_truthy theme) (map fst THEME_VAR_MAP))"
    by (simp add: themeToCSS_assignments_def filter_map comp_def case_prod_unfold)
  also have "\<dots> = card ({key. theme_truthy theme key} \<inter> set (map fst THEME_VAR_MAP))"
    using THEME_VAR_MAP_distinct_keys by (rule distinct_length_filter)
  also have "{key. theme_truthy theme key} \<inter> set (map fst THEME_VAR_MAP) =
             {key \<in> fst ` set THEME_VAR_MAP. theme_truthy theme key}"
    by auto
  finally show ?thesis .
qed

lemma assignment_present:
  assumes "(key, cssVar) \<in> set THEME_VAR_MAP" and "theme key = Some v" and "v \<noteq> []"
  shows "cssVar @ '': '' @ v @ '';'' \<in> set (themeToCSS_assignments theme)"
proof -
  have "theme_truthy theme key" using assms(2,3) by (simp add: theme_truthy_def)
  then have "(key, cssVar) \<in> set (filter (\<lambda>(key, cssVar). theme_truthy theme key) THEME_VAR_MAP)"
    using assms(1) by simp
  then have "(\<lambda>(key, cssVar). cssVar @ '': '' @ theme_text theme key @ '';'') (key, cssVar)
        \<in> set (themeToCSS_assignments theme)"
    unfolding themeToCSS_assignments_def set_map by (rule imageI)
  then show ?thesis using assms(2) by (simp add: theme_text_def)
qed

lemma two_roles:
  assumes "a \<noteq> []" and "b \<noteq> []"
  shows "themeToCSS_assignments [''primary'' \<mapsto> a, ''background'' \<mapsto> b] =
           [''--primary: '' @ a @ '';'', ''--background: '' @ b @ '';'']"
  using assms
  by (simp add: themeToCSS_assignments_def THEME_VAR_MAP_def theme_truthy_def theme_text_def)

lemma no_roles: "themeToCSS_assignments Map.empty = []" "themeToCSS Map.empty = []"
  by (simp_all add: themeToCSS_def themeToCSS_assignments_def THEME_VAR_MAP_def theme_truthy_def)


text \<open>
  Claim C7. The assignments \<open>themeToCSS\<close> emits are the elements of the array it
  joins. For every role of \<open>THEME_VAR_MAP\<close> exactly one of them starts with the
  variable of the role when the theme has a non-empty value for the role, and it is
  the variable, a colon, a space, the value and a semicolon; none does when the value
  is empty or missing. Their number is the number of such roles. A theme with only
  \<open>primary\<close> and \<open>background\<close> set, to non-empty values, gives exactly these two
  assignments, and a theme with no field set gives none and the empty string.
\<close>

theorem themeToCSS_one_assignment_per_present_role:
  "(\<forall>key cssVar. (key, cssVar) \<in> set THEME_VAR_MAP \<longrightarrow>
      length (filter (prefix (cssVar @ '': '')) (themeToCSS_assignments theme)) =
        (if theme_truthy theme key then 1 else 0)) \<and>
   (\<forall>key cssVar v. (key, cssVar) \<in> set THEME_VAR_MAP \<and> theme key = Some v \<and> v \<noteq> [] \<longrightarrow>
      cssVar @ '': '' @ v @ '';'' \<in> set (themeToCSS_assignments theme)) \<and>
   length (themeToCSS_assignments theme) =
     card {key \<in> fst ` set THEME_VAR_MAP. theme_truthy theme key} \<and>
   (a \<noteq> [] \<and> b \<noteq> [] \<longrightarrow>
      themeToCSS_assignments [''primary'' \<mapsto> a, ''background'' \<mapsto> b] =
        [''--primary: '' @ a @ '';'', ''--background: '' @ b @ '';'']) \<and>
   themeToCSS_assignments Map.empty = [] \<and> themeToCSS Map.empty = []"
  using count_assignments_of_var [of _ _ theme] assignment_present [of _ _ theme]
    length_assignments [of theme] two_roles [of a b] no_roles
  by blast

theorem themeToCSS_one_assignment_per_present_role_witness:
  "themeToCSS_assignments [''primary'' \<mapsto> ''#ff0000'', ''background'' \<mapsto> ''#ffffff''] =
     [''--primary: #ff0000;'', ''--background: #ffffff;''] \<and>
   length (themeToCSS_assignments [''primary'' \<mapsto> ''#ff0000'', ''background'' \<mapsto> ''#ffffff'']) = 2 \<and>
   themeToCSS [''primary'' \<mapsto> ''#ff0000'', ''background'' \<mapsto> ''#ffffff''] =
     ''--primary: #ff0000;'' @ [CHR 0x0A] @ ''    --background: #ffffff;''"
proof -
  have h: "''#ff0000'' \<noteq> [] \<and> ''#ffffff'' \<noteq> []" by simp
  note t = themeToCSS_one_assignment_per_present_role [of _ "''#ff0000''" "''#ffffff''"]
  have e: "themeToCSS_assignments [''primary'' \<mapsto> ''#ff0000'', ''background'' \<mapsto> ''#ffffff''] =
     [''--primary: #ff0000;'', ''--background: #ffffff;'']"
    using t [THEN conjunct2, THEN conjunct2, THEN conjunct2, THEN conjunct1, THEN mp, OF h]
    by simp
  show ?thesis
    by (simp add: e themeToCSS_def)
qed

section \<open>Properties of the catalog fetch\<close>

text \<open>The result of \<open>getProducts\<close> depends on the network only through the response
  to the URL above.\<close>

lemma getProducts_fetch_at_url:
  "fetch (getProducts_url api spaceId) = fetch' (getProducts_url api spaceId) \<Longrightarrow>
   getProducts api fetch spaceId = getProducts api fetch' spaceId"
  by (simp add: getProducts_def)

lemma urlencode_safe: "set s \<subseteq> set urlencoded_safe \<Longrightarrow> urlencode s = s"
  by (induction s) (simp_all add: urlencode_def urlencode_char_def Let_def)

lemma urlencode_space_name: "urlencode ''space'' = ''space''"
  by code_simp

lemma urlencode_eq_Nil: "urlencode s = [] \<longleftrightarrow> s = []"
  by (cases s) (auto simp add: urlencode_def urlencode_char_def Let_def percent_byte_def)

text \<open>
  Claim C8. The parameters of the catalog fetch hold \<open>space\<close> with the tenant id, and
  the URL ends with \<open>?space=\<close> and the tenant id in its form encoding (the tenant id
  itself when it has only letters, digits and \<open>* - . _\<close>), exactly when the tenant id
  is non-empty and not the default token. For the default token, and for a missing
  cookie, the URL is the products endpoint without a query. \<open>getProducts\<close> fetches
  that URL: its result is the one determined by the response to it.
\<close>

theorem getProducts_space_param:
  "(spaceId \<noteq> [] \<and> spaceId \<noteq> ''default'' \<longrightarrow>
      getProducts_params spaceId = [(''space'', spaceId)] \<and>
      getProducts_url api spaceId = api @ ''/products?space='' @ urlencode spaceId \<and>
      getProducts api fetch spaceId =
        (case fetch (api @ ''/products?space='' @ urlencode spaceId) of
           Fetch_rejected \<Rightarrow> Inr []
         | Fetch_response ok body \<Rightarrow>
             if \<not> ok then Inr []
             else (case body of None \<Rightarrow> Inl Json_rejected | Some ps \<Rightarrow> Inr ps))) \<and>
   (spaceId = [] \<or> spaceId = ''default'' \<longrightarrow>
      getProducts_params spaceId = [] \<and> getProducts_url api spaceId = api @ ''/products'' \<and>
      getProducts api fetch spaceId =
        (case fetch (api @ ''/products'') of
           Fetch_rejected \<Rightarrow> Inr []
         | Fetch_response ok body \<Rightarrow>
             if \<not> ok then Inr []
             else (case body of None \<Rightarrow> Inl Json_rejected | Some ps \<Rightarrow> Inr ps))) \<and>
   (set spaceId \<subseteq> set urlencoded_safe \<longrightarrow> urlencode spaceId = spaceId) \<and>
   getProducts_url api (cookie_spaceId None) = api @ ''/products''"
proof -
  have u1: "spaceId \<noteq> [] \<and> spaceId \<noteq> ''default'' \<Longrightarrow>
      getProducts_url api spaceId = api @ ''/products?space='' @ urlencode spaceId"
    by (auto simp add: getProducts_url_def getProducts_params_def searchParams_toString_def
        urlencode_space_name Let_def)
  have u2: "spaceId = [] \<or> spaceId = ''default'' \<Longrightarrow>
      getProducts_url api spaceId = api @ ''/products''"
    by (auto simp add: getProducts_url_def getProducts_params_def searchParams_toString_def
        Let_def)
  have p1: "spaceId \<noteq> [] \<and> spaceId \<noteq> ''default'' \<Longrightarrow>
      getProducts_params spaceId = [(''space'', spaceId)]"
    by (simp add: getProducts_params_def)
  have p2: "spaceId = [] \<or> spaceId = ''default'' \<Longrightarrow> getProducts_params spaceId = []"
    by (auto simp add: getProducts_params_def)
  have c: "getProducts_url api (cookie_spaceId None) = api @ ''/products''"
    by (simp add: getProducts_url_def getProducts_params_def searchParams_toString_def
        cookie_spaceId_def Let_def)
  have g: "getProducts api fetch spaceId =
        (case fetch (getProducts_url api spaceId) of
           Fetch_rejected \<Rightarrow> Inr []
         | Fetch_response ok body \<Rightarrow>
             if \<not> ok then Inr []
             else (case body of None \<Rightarrow> Inl Json_rejected | Some ps \<Rightarrow> Inr ps))"
    by (simp add: getProducts_def)
  show ?thesis
    using u1 u2 p1 p2 c urlencode_safe [of spaceId] unfolding g by presburger
qed

theorem getProducts_space_param_witness:
  "getProducts (API_URL None)
     (\<lambda>url. if url = ''http://localhost:8000/api/products?space=acme''
            then Fetch_response True (Some [''acme-tee'']) else Fetch_rejected)
     (cookie_spaceId (Some ''acme'')) = Inr [''acme-tee''] \<and>
   getProducts (API_URL None)
     (\<lambda>url. if url = ''http://localhost:8000/api/products''
            then Fetch_response True (Some [''tee'', ''mug'']) else Fetch_rejected)
     (cookie_spaceId (Some ''default'')) = Inr [''tee'', ''mug''] \<and>
   getProducts_url (API_URL None) (cookie_spaceId (Some ''acme'')) =
     ''http://localhost:8000/api/products?space=acme'' \<and>
   getProducts_url (API_URL None) (cookie_spaceId (Some ''default'')) =
     ''http://localhost:8000/api/products''"
proof -
  let ?api = "''http://localhost:8000/api''"
  let ?f = "\<lambda>url. if url = ''http://localhost:8000/api/products?space=acme''
            then Fetch_response True (Some [''acme-tee'']) else Fetch_rejected"
  let ?g = "\<lambda>url. if url = ''http://localhost:8000/api/products''
            then Fetch_response True (Some [''tee'', ''mug'']) else Fetch_rejected"
  have a: "cookie_spaceId (Some ''acme'') = ''acme''" "cookie_spaceId (Some ''default'') = ''default''"
    by code_simp+
  have h: "''acme'' \<noteq> [] \<and> ''acme'' \<noteq> ''default''" by simp
  have h': "''default'' = [] \<or> ''default'' = ''default''" by simp
  have s: "set ''acme'' \<subseteq> set urlencoded_safe" by code_simp
  have u: "API_URL None = ?api" by code_simp
  note t = getProducts_space_param [of "''acme''" ?api ?f, THEN conjunct1, THEN mp, OF h]
  note e = getProducts_space_param [of "''acme''" ?api ?f, THEN conjunct2, THEN conjunct2,
      THEN conjunct1, THEN mp, OF s]
  note d = getProducts_space_param [of "''default''" ?api ?g, THEN conjunct2, THEN conjunct1,
      THEN mp, OF h']
  have 1: "getProducts_url ?api ''acme'' = ''http://localhost:8000/api/products?space=acme''"
    using t [THEN conjunct2, THEN conjunct1] unfolding e by simp
  have 2: "getProducts ?api ?f ''acme'' = Inr [''acme-tee'']"
    using t [THEN conjunct2, THEN conjunct2] unfolding e by simp
  have 3: "getProducts_url ?api ''default'' = ''http://localhost:8000/api/products''"
    using d [THEN conjunct2, THEN conjunct1] by simp
  have 4: "getProducts ?api ?g ''default'' = Inr [''tee'', ''mug'']"
    using d [THEN conjunct2, THEN conjunct2] by simp
  show ?thesis
    unfolding a u by (intro conjI 2 4 1 3)
qed

end
